theory Spec2Isabelle
  imports Main "HOL-Library.Word"
begin

section \<open>Errors\<close>

text \<open>
  Exceptions are values. \<open>ValueError\<close> carries its message; it is the one exception
  \<open>tasks.py\<close> raises itself (the spec calls it \<open>InvalidConfiguration\<close>).
  \<open>TypeError\<close> and \<open>OverflowError\<close> are what the Python runtime raises inside
  \<open>pendulum.now("UTC").add(**schedule_in)\<close>. \<open>Raised x\<close> is any exception \<open>x\<close>
  raised by a collaborator: the job store or a work unit.
\<close>

datatype 'x error = ValueError string | TypeError | OverflowError | Raised 'x

section \<open>Time: the part of \<open>pendulum\<close> that \<open>configure\<close> uses\<close>

text \<open>
  An aware datetime is the instant it denotes, in microseconds since
  1970-01-01T00:00:00 UTC (two aware datetimes are equal in Python when they denote the
  same instant). \<open>days_from_civil\<close> counts the days from 1970-01-01 to a date of the
  proleptic Gregorian calendar, and \<open>pendulum_datetime\<close> builds the instant of a UTC
  wall-clock time, so that instants can be written as dates.
\<close>

type_synonym datetime = int

definition days_from_civil :: "int \<Rightarrow> int \<Rightarrow> int \<Rightarrow> int" where
  "days_from_civil y m d =
     (let y1 = (if m \<le> 2 then y - 1 else y);
          era = y1 div 400;
          yoe = y1 - era * 400;
          doy = (153 * (if m > 2 then m - 3 else m + 9) + 2) div 5 + d - 1;
          doe = yoe * 365 + yoe div 4 - yoe div 100 + doy
      in era * 146097 + doe - 719468)"

definition pendulum_datetime :: "int \<Rightarrow> int \<Rightarrow> int \<Rightarrow> int \<Rightarrow> int \<Rightarrow> int \<Rightarrow> datetime" where
  "pendulum_datetime y m d hh mm ss =
     (((days_from_civil y m d * 24 + hh) * 60 + mm) * 60 + ss) * 1000000"

text \<open>The range of Python's \<open>datetime\<close>: 0001-01-01T00:00:00 to 9999-12-31T23:59:59.999999.\<close>

definition datetime_min :: datetime where
  "datetime_min = pendulum_datetime 1 1 1 0 0 0"

definition datetime_max :: datetime where
  "datetime_max = pendulum_datetime 9999 12 31 23 59 59 + 999999"

definition valid_datetime :: "datetime \<Rightarrow> bool" where
  "valid_datetime t = (datetime_min \<le> t \<and> t \<le> datetime_max)"

text \<open>
  \<open>DateTime.add(years=0, months=0, weeks=0, days=0, hours=0, minutes=0, seconds=0,
  microseconds=0)\<close>, called as \<open>add(**schedule_in)\<close>: a key of the dict that is not one of
  the eight keyword names is a \<open>TypeError\<close>, a missing key is 0. On a UTC datetime,
  weeks, days, hours, minutes, seconds and microseconds have a fixed length. Years and
  months move the date in the calendar first; that arithmetic belongs to the library and
  is the parameter \<open>cal\<close> (years, months, instant), not called when both are 0. A result
  outside the range of \<open>datetime\<close> is an \<open>OverflowError\<close>.
\<close>

definition duration_units :: "string list" where
  "duration_units = [''years'', ''months'', ''weeks'', ''days'', ''hours'', ''minutes'',
                     ''seconds'', ''microseconds'']"

definition kwarg :: "(string \<rightharpoonup> int) \<Rightarrow> string \<Rightarrow> int" where
  "kwarg d k = (case d k of None \<Rightarrow> 0 | Some v \<Rightarrow> v)"

definition fixed_micros :: "(string \<rightharpoonup> int) \<Rightarrow> int" where
  "fixed_micros d =
     ((((kwarg d ''weeks'' * 7 + kwarg d ''days'') * 24 + kwarg d ''hours'') * 60
        + kwarg d ''minutes'') * 60 + kwarg d ''seconds'') * 1000000
     + kwarg d ''microseconds''"

type_synonym 'x calendar = "int \<Rightarrow> int \<Rightarrow> datetime \<Rightarrow> 'x error + datetime"

definition pendulum_add ::
  "'x calendar \<Rightarrow> datetime \<Rightarrow> (string \<rightharpoonup> int) \<Rightarrow> 'x error + datetime" where
  "pendulum_add cal t d =
     (if \<not> dom d \<subseteq> set duration_units then Inl TypeError
      else case (if kwarg d ''years'' = 0 \<and> kwarg d ''months'' = 0 then Inr t
                 else cal (kwarg d ''years'') (kwarg d ''months'') t) of
             Inl e \<Rightarrow> Inl e
           | Inr t1 \<Rightarrow>
               (let t2 = t1 + fixed_micros d
                in if valid_datetime t2 then Inr t2 else Inl OverflowError))"

section \<open>UUIDs: \<open>str(uuid.uuid4())\<close>\<close>

text \<open>
  A UUID is its 128-bit integer. \<open>str\<close> of a UUID is \<open>'%032x' % int\<close>, cut into groups of
  8, 4, 4, 4 and 12 hexadecimal digits joined by dashes.
\<close>

type_synonym uuid = "128 word"

definition hexdigit :: "nat \<Rightarrow> char" where
  "hexdigit n = ''0123456789abcdef'' ! n"

fun hex_fixed :: "nat \<Rightarrow> nat \<Rightarrow> string" where
  "hex_fixed 0 n = []"
| "hex_fixed (Suc k) n = hex_fixed k (n div 16) @ [hexdigit (n mod 16)]"

definition uuid_str :: "uuid \<Rightarrow> string" where
  "uuid_str u =
     (let hex = hex_fixed 32 (unat u)
      in take 8 hex @ ''-'' @ take 4 (drop 8 hex) @ ''-'' @ take 4 (drop 12 hex) @ ''-''
         @ take 4 (drop 16 hex) @ ''-'' @ drop 20 hex)"

section \<open>Data model\<close>

text \<open>
  Objects that are shared and mutated (\<open>TaskManager\<close>, the job store) live in a heap and
  are named by a reference; \<open>Task.manager\<close>, \<open>TaskManager.job_store\<close> and
  \<open>Job.job_store\<close> hold references. \<open>'f\<close> is the type of Python callables, \<open>'v\<close> the
  type of JSON values, \<open>'s\<close> the state of a job store.
\<close>

type_synonym manager_ref = nat
type_synonym store_ref = nat
type_synonym 'v kwargs = "string \<rightharpoonup> 'v"

record 'f task =
  func :: 'f
  manager :: manager_ref
  queue :: string
  name :: string

text \<open>
  \<open>jobs.Job\<close>, with the fields \<open>configure\<close> passes to its constructor: \<open>id\<close>, \<open>lock\<close>,
  \<open>task_name\<close>, \<open>queue\<close>, \<open>task_kwargs\<close>, \<open>scheduled_at\<close>, \<open>job_store\<close> (the prefix
  \<open>j_\<close> keeps a field apart from a constant or a field of another record). The class
  is declared in \<open>jobs.py\<close>; its constructor is taken to store the fields it is given.
\<close>

record 'v job =
  j_id :: "int option"
  lock :: string
  task_name :: string
  j_queue :: string
  task_kwargs :: "'v kwargs"
  scheduled_at :: "datetime option"
  j_job_store :: store_ref

record 'f task_manager =
  job_store :: store_ref
  tasks :: "string \<rightharpoonup> 'f task"
  queues :: "string set"

text \<open>
  The job store is a collaborator. Its two operations take the store's state and return
  a result and the new state; \<open>store_calls\<close> in the world records every call this layer
  makes to a store, oldest first.
\<close>

datatype 'v store_call = RegisterQueue string | Defer "'v job"

record ('s, 'v, 'x) job_store_ops =
  register_queue :: "string \<Rightarrow> 's \<Rightarrow> ('x error + unit) \<times> 's"
  store_defer :: "'v job \<Rightarrow> 's \<Rightarrow> ('x error + int) \<times> 's"

text \<open>
  The world: the heap of managers, the state of every store, the trace of store calls,
  what \<open>pendulum.now("UTC")\<close> reads, and the values \<open>uuid.uuid4()\<close> will return, in order.
\<close>

record ('f, 's, 'v) world =
  managers :: "manager_ref \<Rightarrow> 'f task_manager"
  stores :: "store_ref \<Rightarrow> 's"
  store_calls :: "(store_ref \<times> 'v store_call) list"
  now :: datetime
  uuid_source :: "nat \<Rightarrow> uuid"

definition uuid4 :: "('f, 's, 'v) world \<Rightarrow> uuid \<times> ('f, 's, 'v) world" where
  "uuid4 w = (uuid_source w 0, w\<lparr>uuid_source := (\<lambda>n. uuid_source w (Suc n))\<rparr>)"

section \<open>Task\<close>

text \<open>\<open>Task.__init__\<close>: \<open>self.name = name or self.func.__name__\<close>; \<open>nm\<close> reads \<open>__name__\<close>.\<close>

definition Task_init ::
  "('f \<Rightarrow> string) \<Rightarrow> 'f \<Rightarrow> manager_ref \<Rightarrow> string \<Rightarrow> string option \<Rightarrow> 'f task" where
  "Task_init nm f m q name_arg =
     \<lparr>func = f, manager = m, queue = q,
      name = (case name_arg of None \<Rightarrow> nm f | Some n \<Rightarrow> if n \<noteq> [] then n else nm f)\<rparr>"

text \<open>
  \<open>Task.__call__\<close>: \<open>def __call__(self, **kwargs): return self.func(**kwargs)\<close>. The
  first parameter of the method is named \<open>self\<close>, so keyword arguments with the key
  \<open>self\<close> cannot be bound: Python raises a \<open>TypeError\<close> (multiple values for argument
  \<open>self\<close>) before the body runs. \<open>run\<close> is the meaning of a callable: applied to keyword
  arguments in a world, it returns a value or raises, and leaves a world.
\<close>

definition Task_call ::
  "('f \<Rightarrow> 'v kwargs \<Rightarrow> 'w \<Rightarrow> ('x error + 'r) \<times> 'w) \<Rightarrow> 'f task \<Rightarrow> 'v kwargs \<Rightarrow> 'w
     \<Rightarrow> ('x error + 'r) \<times> 'w" where
  "Task_call run t kwargs w =
     (if ''self'' \<in> dom kwargs then (Inl TypeError, w) else run (func t) kwargs w)"

text \<open>
  \<open>Task.configure\<close>. A \<open>datetime\<close> object is always true in a condition, so
  \<open>schedule_at and schedule_in is not None\<close> holds exactly when neither is \<open>None\<close>.
  \<open>lock or str(uuid.uuid4())\<close> draws a UUID when \<open>lock\<close> is \<open>None\<close> or the empty string;
  \<open>task_kwargs or {}\<close> is the empty dict when \<open>task_kwargs\<close> is \<open>None\<close> or empty.
\<close>

definition dict_or_empty :: "'v kwargs option \<Rightarrow> 'v kwargs" where
  "dict_or_empty a = (case a of None \<Rightarrow> Map.empty
                      | Some d \<Rightarrow> if d = Map.empty then Map.empty else d)"

definition lock_or_uuid ::
  "string option \<Rightarrow> ('f, 's, 'v) world \<Rightarrow> string \<times> ('f, 's, 'v) world" where
  "lock_or_uuid a w =
     (case a of
        None \<Rightarrow> (let (u, w') = uuid4 w in (uuid_str u, w'))
      | Some l \<Rightarrow> if l \<noteq> [] then (l, w) else (let (u, w') = uuid4 w in (uuid_str u, w')))"

definition configure ::
  "'x calendar \<Rightarrow> 'f task \<Rightarrow> string option \<Rightarrow> 'v kwargs option \<Rightarrow> datetime option
     \<Rightarrow> (string \<rightharpoonup> int) option \<Rightarrow> ('f, 's, 'v) world
     \<Rightarrow> ('x error + 'v job) \<times> ('f, 's, 'v) world" where
  "configure cal t lock_arg kwargs_arg schedule_at schedule_in w =
     (if schedule_at \<noteq> None \<and> schedule_in \<noteq> None
      then (Inl (ValueError ''Cannot set both schedule_at and schedule_in''), w)
      else
        case (case schedule_in of
                None \<Rightarrow> Inr schedule_at
              | Some d \<Rightarrow> (case pendulum_add cal (now w) d of
                             Inl e \<Rightarrow> Inl e | Inr t' \<Rightarrow> Inr (Some t'))) of
          Inl e \<Rightarrow> (Inl e, w)
        | Inr sched \<Rightarrow>
            (let (l, w') = lock_or_uuid lock_arg w
             in (Inr \<lparr>j_id = None, lock = l, task_name = name t, j_queue = queue t,
                      task_kwargs = dict_or_empty kwargs_arg, scheduled_at = sched,
                      j_job_store = job_store (managers w (manager t))\<rparr>, w')))"

text \<open>
  Modelled from the spec: \<open>Job.defer\<close> (\<open>jobs.py\<close>) is not among the sources.
  \<open>Task.defer\<close> passes it the keyword arguments; by the spec the job that reaches the
  store carries them as its \<open>taskKwargs\<close>, the job is submitted to its \<open>jobStore\<close>
  (\<open>defer(job) -> integer id\<close>), and the store's identifier or error is the result.
\<close>

definition Job_defer ::
  "('s, 'v, 'x) job_store_ops \<Rightarrow> 'v job \<Rightarrow> 'v kwargs \<Rightarrow> ('f, 's, 'v) world
     \<Rightarrow> ('x error + int) \<times> ('f, 's, 'v) world" where
  "Job_defer ops j kwargs w =
     (let j' = j\<lparr>task_kwargs := task_kwargs j ++ kwargs\<rparr>;
          sr = j_job_store j';
          (r, s') = store_defer ops j' (stores w sr)
      in (r, w\<lparr>stores := (stores w)(sr := s'),
               store_calls := store_calls w @ [(sr, Defer j')]\<rparr>))"

text \<open>
  \<open>Task.defer\<close>: \<open>def defer(self, **task_kwargs):
  job_id = self.configure().defer(**task_kwargs); return job_id\<close>. As for
  \<open>__call__\<close>, keyword arguments with the key \<open>self\<close> are a \<open>TypeError\<close> at the call,
  before \<open>configure\<close> or the store is reached.
\<close>

definition Task_defer ::
  "'x calendar \<Rightarrow> ('s, 'v, 'x) job_store_ops \<Rightarrow> 'f task \<Rightarrow> 'v kwargs \<Rightarrow> ('f, 's, 'v) world
     \<Rightarrow> ('x error + int) \<times> ('f, 's, 'v) world" where
  "Task_defer cal ops t kwargs w =
     (if ''self'' \<in> dom kwargs then (Inl TypeError, w)
      else case configure cal t None None None None w of
             (Inl e, w1) \<Rightarrow> (Inl e, w1)
           | (Inr j, w1) \<Rightarrow> Job_defer ops j kwargs w1)"

section \<open>TaskManager\<close>

text \<open>
  \<open>TaskManager.__init__\<close>: the object a new manager starts as. The default store
  (\<open>postgres.PostgresJobStore()\<close>) is built outside this layer; \<open>default_store\<close> is its
  reference.
\<close>

definition TaskManager_init :: "store_ref \<Rightarrow> store_ref option \<Rightarrow> 'f task_manager" where
  "TaskManager_init default_store js =
     \<lparr>job_store = (case js of None \<Rightarrow> default_store | Some s \<Rightarrow> s),
      tasks = Map.empty, queues = {}\<rparr>"

text \<open>
  \<open>TaskManager.register\<close> on the manager at \<open>m\<close>: the task is stored first; then, for a
  queue not in \<open>queues\<close>, the store is called and, if the call returns, the queue is
  added. (The \<open>logger.info\<close> call is not modelled.)
\<close>

definition register ::
  "('s, 'v, 'x) job_store_ops \<Rightarrow> manager_ref \<Rightarrow> 'f task \<Rightarrow> ('f, 's, 'v) world
     \<Rightarrow> ('x error + unit) \<times> ('f, 's, 'v) world" where
  "register ops m t w =
     (let mgr1 = (managers w m)\<lparr>tasks := (tasks (managers w m))(name t \<mapsto> t)\<rparr>;
          w1 = w\<lparr>managers := (managers w)(m := mgr1)\<rparr>
      in if queue t \<notin> queues mgr1 then
           (let sr = job_store mgr1;
                (r, s') = register_queue ops (queue t) (stores w1 sr);
                w2 = w1\<lparr>stores := (stores w1)(sr := s'),
                        store_calls := store_calls w1 @ [(sr, RegisterQueue (queue t))]\<rparr>
            in case r of
                 Inl e \<Rightarrow> (Inl e, w2)
               | Inr u \<Rightarrow>
                   (Inr (), w2\<lparr>managers := (managers w2)
                                  (m := mgr1\<lparr>queues := insert (queue t) (queues mgr1)\<rparr>)\<rparr>))
         else (Inr (), w1))"

text \<open>
  A caller making one \<open>register\<close> call after another on the same manager, going on after
  a call that raised (as a caller that catches the exception does). The results are
  returned in order.
\<close>

fun register_seq ::
  "('s, 'v, 'x) job_store_ops \<Rightarrow> manager_ref \<Rightarrow> 'f task list \<Rightarrow> ('f, 's, 'v) world
     \<Rightarrow> ('x error + unit) list \<times> ('f, 's, 'v) world" where
  "register_seq ops m [] w = ([], w)"
| "register_seq ops m (t # ts) w =
     (let (r, w1) = register ops m t w;
          (rs, w2) = register_seq ops m ts w1
      in (r # rs, w2))"

text \<open>The number of \<open>register_queue\<close> calls for queue \<open>q\<close> in a trace.\<close>

definition queue_calls :: "string \<Rightarrow> (store_ref \<times> 'v store_call) list \<Rightarrow> nat" where
  "queue_calls q tr = length (filter (\<lambda>c. snd c = RegisterQueue q) tr)"

text \<open>
  For the tasks \<open>ts\<close> registered in order and the results \<open>rs\<close> of these calls: how many
  registrations of a task on queue \<open>q\<close> raised, and whether one of them returned.
\<close>

definition raised_for :: "string \<Rightarrow> 'f task list \<Rightarrow> ('x error + unit) list \<Rightarrow> nat" where
  "raised_for q ts rs = length (filter (\<lambda>(t, r). queue t = q \<and> isl r) (zip ts rs))"

definition returned_for :: "string \<Rightarrow> 'f task list \<Rightarrow> ('x error + unit) list \<Rightarrow> bool" where
  "returned_for q ts rs = list_ex (\<lambda>(t, r). queue t = q \<and> \<not> isl r) (zip ts rs)"

section \<open>Example inputs\<close>

text \<open>
  Two job stores. \<open>memory_store\<close> keeps the jobs it is given in a list and numbers them
  from 0; provisioning a queue always succeeds. \<open>flaky_store\<close> counts the
  \<open>register_queue\<close> calls it has received: the first one raises, the later ones return.
  \<open>example_world\<close> has every manager new, on store 0, the clock at
  2000-01-01T00:00:00 UTC, and the UUID generator yielding 0, 1, 2, ...
  \<open>no_calendar\<close> refuses every shift by years or months. \<open>example_task\<close> and
  \<open>other_task\<close> are two tasks of manager 0 on the queue \<open>queue\<close>, under different
  names.
\<close>

definition memory_store :: "(int job list, int, string) job_store_ops" where
  "memory_store =
     \<lparr>register_queue = (\<lambda>q s. (Inr (), s)),
      store_defer = (\<lambda>j s. (Inr (int (length s)), s @ [j\<lparr>j_id := Some (int (length s))\<rparr>]))\<rparr>"

definition flaky_store :: "(nat, int, string) job_store_ops" where
  "flaky_store =
     \<lparr>register_queue =
        (\<lambda>q n. (if n = 0 then Inl (Raised ''StoreError'') else Inr (), Suc n)),
      store_defer = (\<lambda>j n. (Inl (Raised ''StoreError''), n))\<rparr>"

definition example_world :: "'s \<Rightarrow> (unit, 's, int) world" where
  "example_world s0 =
     \<lparr>managers = (\<lambda>m. TaskManager_init 0 None), stores = (\<lambda>r. s0), store_calls = [],
      now = pendulum_datetime 2000 1 1 0 0 0, uuid_source = (\<lambda>n. of_nat n)\<rparr>"

definition example_task :: "unit task" where
  "example_task = Task_init (\<lambda>f. ''task_func'') () 0 ''queue'' None"

definition no_calendar :: "string calendar" where
  "no_calendar y m t = Inl (ValueError ''year is out of range'')"

definition other_task :: "unit task" where
  "other_task = Task_init (\<lambda>f. ''task_func'') () 0 ''queue'' (Some ''other'')"

text \<open>
  \<open>picky_store\<close> refuses to provision the queue \<open>qfail\<close> and provisions every other
  queue; \<open>qfail_task\<close> is a task on that queue. Two work units:
  \<open>def work(**kwargs): return kwargs.get("x", 0) + 1\<close>, and one that raises.
\<close>

definition picky_store :: "(nat, int, string) job_store_ops" where
  "picky_store =
     \<lparr>register_queue =
        (\<lambda>q n. (if q = ''qfail'' then Inl (Raised ''StoreError'') else Inr (), Suc n)),
      store_defer = (\<lambda>j n. (Inl (Raised ''StoreError''), n))\<rparr>"

definition qfail_task :: "unit task" where
  "qfail_task = Task_init (\<lambda>f. ''task_func'') () 0 ''qfail'' (Some ''failing'')"

definition work_run :: "unit \<Rightarrow> int kwargs \<Rightarrow> 'w \<Rightarrow> (string error + int) \<times> 'w" where
  "work_run f kw w = (Inr (kwarg kw ''x'' + 1), w)"

definition raising_run :: "unit \<Rightarrow> int kwargs \<Rightarrow> 'w \<Rightarrow> (string error + int) \<times> 'w" where
  "raising_run f kw w = (Inl (Raised ''work unit failed''), w)"

section \<open>Properties\<close>

subsection \<open>The string of a UUID\<close>

lemma length_hex_fixed: "length (hex_fixed k n) = k"
  by (induction k arbitrary: n) simp_all

lemma hexdigit_inj:
  assumes "a < 16" "b < 16" "hexdigit a = hexdigit b"
  shows "a = b"
proof -
  have d: "distinct ''0123456789abcdef''" by simp
  have "length ''0123456789abcdef'' = 16" by simp
  with assms d show ?thesis
    unfolding hexdigit_def by (metis nth_eq_iff_index_eq)
qed

lemma hex_fixed_inj:
  "n < 16 ^ k \<Longrightarrow> m < 16 ^ k \<Longrightarrow> hex_fixed k n = hex_fixed k m \<Longrightarrow> n = m"
proof (induction k arbitrary: n m)
  case 0
  then show ?case by simp
next
  case (Suc k)
  from Suc.prems(3) have e: "hex_fixed k (n div 16) = hex_fixed k (m div 16)"
    and h: "hexdigit (n mod 16) = hexdigit (m mod 16)"
    by (simp_all add: length_hex_fixed)
  from Suc.prems(1,2) have "n div 16 < 16 ^ k" "m div 16 < 16 ^ k"
    by (simp_all add: less_mult_imp_div_less mult.commute)
  with e Suc.IH have "n div 16 = m div 16" by blast
  moreover from h have "n mod 16 = m mod 16" by (intro hexdigit_inj) simp_all
  ultimately show ?case by (metis div_mult_mod_eq)
qed

lemma uuid_str_nonempty: "uuid_str u \<noteq> []"
  by (simp add: uuid_str_def Let_def)

lemma length_uuid_str: "length (uuid_str u) = 36"
  by (simp add: uuid_str_def Let_def length_hex_fixed)

lemma uuid_str_inj: "uuid_str u = uuid_str v \<Longrightarrow> u = v"
proof -
  assume a: "uuid_str u = uuid_str v"
  define h1 where "h1 = hex_fixed 32 (unat u)"
  define h2 where "h2 = hex_fixed 32 (unat v)"
  have l: "length h1 = 32" "length h2 = 32" by (simp_all add: h1_def h2_def length_hex_fixed)
  from a have "take 8 h1 @ ''-'' @ take 4 (drop 8 h1) @ ''-'' @ take 4 (drop 12 h1) @ ''-''
         @ take 4 (drop 16 h1) @ ''-'' @ drop 20 h1 = take 8 h2 @ ''-'' @ take 4 (drop 8 h2) @ ''-'' @ take 4 (drop 12 h2) @ ''-''
         @ take 4 (drop 16 h2) @ ''-'' @ drop 20 h2"
    by (simp add: uuid_str_def Let_def h1_def h2_def)
  with l have p: "take 8 h1 = take 8 h2" "take 4 (drop 8 h1) = take 4 (drop 8 h2)"
     "take 4 (drop 12 h1) = take 4 (drop 12 h2)" "take 4 (drop 16 h1) = take 4 (drop 16 h2)"
     "drop 20 h1 = drop 20 h2"
    by simp_all
  have r: "h = take 8 h @ take 4 (drop 8 h) @ take 4 (drop 12 h) @ take 4 (drop 16 h) @ drop 20 h" for h :: string
  proof -
    have "take 4 (drop 16 h) @ drop 20 h = drop 16 h"
      using append_take_drop_id[of 4 "drop 16 h"] by simp
    moreover have "take 4 (drop 12 h) @ drop 16 h = drop 12 h"
      using append_take_drop_id[of 4 "drop 12 h"] by simp
    moreover have "take 4 (drop 8 h) @ drop 12 h = drop 8 h"
      using append_take_drop_id[of 4 "drop 8 h"] by simp
    ultimately show ?thesis by simp
  qed
  have "h1 = h2" using p r[of h1] r[of h2] by simp
  moreover have "unat u < 16 ^ 32" "unat v < 16 ^ 32"
    using unsigned_less[of u] unsigned_less[of v] by simp_all
  ultimately have "unat u = unat v" unfolding h1_def h2_def by (rule_tac hex_fixed_inj)
  then show "u = v" by (simp add: word_unat_eq_iff)
qed

subsection \<open>What \<open>configure\<close> returns\<close>

lemma lock_or_uuid_frame:
  "lock_or_uuid a w = (l, w') \<Longrightarrow>
     managers w' = managers w \<and> stores w' = stores w \<and> store_calls w' = store_calls w
     \<and> now w' = now w"
  by (auto simp: lock_or_uuid_def uuid4_def split: option.splits if_splits)

lemma lock_or_uuid_nonempty: "lock_or_uuid a w = (l, w') \<Longrightarrow> l \<noteq> []"
  by (auto simp: lock_or_uuid_def uuid4_def uuid_str_nonempty split: option.splits if_splits)

lemma lock_or_uuid_omitted:
  "a = None \<or> a = Some [] \<Longrightarrow> lock_or_uuid a w = (l, w') \<Longrightarrow>
     l = uuid_str (uuid_source w 0) \<and> uuid_source w' = (\<lambda>n. uuid_source w (Suc n))"
  by (auto simp: lock_or_uuid_def uuid4_def split: option.splits if_splits)

lemma configure_Inr:
  assumes "configure cal t lock_arg kwargs_arg schedule_at schedule_in w = (Inr j, w')"
  shows "\<exists>sched l.
           \<not> (schedule_at \<noteq> None \<and> schedule_in \<noteq> None)
         \<and> (case schedule_in of None \<Rightarrow> sched = schedule_at
             | Some d \<Rightarrow> \<exists>t'. pendulum_add cal (now w) d = Inr t' \<and> sched = Some t')
         \<and> lock_or_uuid lock_arg w = (l, w')
         \<and> j = \<lparr>j_id = None, lock = l, task_name = name t, j_queue = queue t,
                 task_kwargs = dict_or_empty kwargs_arg, scheduled_at = sched,
                 j_job_store = job_store (managers w (manager t))\<rparr>"
  using assms unfolding configure_def
  by (auto split: if_splits option.splits sum.splits prod.splits)

lemma configure_Inl:
  "configure cal t lock_arg kwargs_arg schedule_at schedule_in w = (Inl e, w') \<Longrightarrow> w' = w"
  unfolding configure_def
  by (auto split: if_splits option.splits sum.splits prod.splits)

lemma configure_no_schedule:
  "\<exists>l w'. lock_or_uuid lock_arg w = (l, w') \<and>
     configure cal t lock_arg kwargs_arg None None w =
       (Inr \<lparr>j_id = None, lock = l, task_name = name t, j_queue = queue t,
                 task_kwargs = dict_or_empty kwargs_arg, scheduled_at = None,
                 j_job_store = job_store (managers w (manager t))\<rparr>, w')"
  unfolding configure_def by (cases "lock_or_uuid lock_arg w") simp

lemma Task_defer_self:
  "''self'' \<in> dom kwargs \<Longrightarrow> Task_defer cal ops t kwargs w = (Inl TypeError, w)"
  by (simp add: Task_defer_def)

lemma Task_defer_unfold:
  assumes "''self'' \<notin> dom kwargs" and "lock_or_uuid None w = (l, w1)"
  shows "Task_defer cal ops t kwargs w =
           Job_defer ops \<lparr>j_id = None, lock = l, task_name = name t, j_queue = queue t,
                 task_kwargs = Map.empty, scheduled_at = None,
                 j_job_store = job_store (managers w (manager t))\<rparr> kwargs w1"
  using assms by (simp add: Task_defer_def configure_def dict_or_empty_def)

lemma Job_defer_result:
  "fst (Job_defer ops j kwargs w)
     = fst (store_defer ops (j\<lparr>task_kwargs := task_kwargs j ++ kwargs\<rparr>)
              (stores w (j_job_store j)))"
  by (simp add: Job_defer_def Let_def split: prod.splits)

lemma Job_defer_world:
  "snd (Job_defer ops j kwargs w)
     = w\<lparr>stores := (stores w)
               (j_job_store j :=
                  snd (store_defer ops (j\<lparr>task_kwargs := task_kwargs j ++ kwargs\<rparr>)
                         (stores w (j_job_store j)))),
           store_calls := store_calls w
              @ [(j_job_store j, Defer (j\<lparr>task_kwargs := task_kwargs j ++ kwargs\<rparr>))]\<rparr>"
  by (simp add: Job_defer_def Let_def split: prod.splits)

text \<open>
  C9. \<open>configure\<close> changes nothing outside the job it builds: after the call, whether it
  returned or raised, every manager (its \<open>tasks\<close> and \<open>queues\<close>) and every store are as
  before, and no call to a store has been made.
\<close>

theorem configure_frame:
  "managers (snd (configure cal t lock_arg kwargs_arg schedule_at schedule_in w)) = managers w
   \<and> stores (snd (configure cal t lock_arg kwargs_arg schedule_at schedule_in w)) = stores w
   \<and> store_calls (snd (configure cal t lock_arg kwargs_arg schedule_at schedule_in w))
       = store_calls w"
proof (cases "configure cal t lock_arg kwargs_arg schedule_at schedule_in w")
  case (Pair r w')
  show ?thesis
  proof (cases r)
    case (Inl e)
    with Pair configure_Inl[of cal t lock_arg kwargs_arg schedule_at schedule_in w e w']
    show ?thesis by simp
  next
    case (Inr j)
    with Pair configure_Inr[of cal t lock_arg kwargs_arg schedule_at schedule_in w j w']
    obtain l where "lock_or_uuid lock_arg w = (l, w')" by blast
    from lock_or_uuid_frame[OF this] Pair show ?thesis by simp
  qed
qed

text \<open>
  C4. The job a successful \<open>configure\<close> returns has no id, the task's name and queue, and
  the store of the task's manager. With \<open>lock\<close> omitted the lock is the string of the
  next UUID of the generator, which the call consumes; with \<open>task_kwargs\<close> omitted the
  keyword arguments are the empty mapping.
\<close>

theorem configure_job_fields:
  assumes "configure cal t lock_arg kwargs_arg schedule_at schedule_in w = (Inr j, w')"
  shows "j_id j = None \<and> task_name j = name t \<and> j_queue j = queue t
       \<and> j_job_store j = job_store (managers w (manager t))
       \<and> (lock_arg = None \<longrightarrow>
            lock j = uuid_str (uuid_source w 0)
            \<and> uuid_source w' = (\<lambda>n. uuid_source w (Suc n)))
       \<and> (kwargs_arg = None \<longrightarrow> task_kwargs j = Map.empty)"
proof -
  from configure_Inr[OF assms] obtain sched l where
    l: "lock_or_uuid lock_arg w = (l, w')" and
    j: "j = \<lparr>j_id = None, lock = l, task_name = name t, j_queue = queue t,
                 task_kwargs = dict_or_empty kwargs_arg, scheduled_at = sched,
                 j_job_store = job_store (managers w (manager t))\<rparr>"
    by blast
  from j have "j_id j = None" "task_name j = name t" "j_queue j = queue t"
    "j_job_store j = job_store (managers w (manager t))" "lock j = l"
    "task_kwargs j = dict_or_empty kwargs_arg" by simp_all
  moreover have "lock_arg = None \<longrightarrow> l = uuid_str (uuid_source w 0)
            \<and> uuid_source w' = (\<lambda>n. uuid_source w (Suc n))"
    using lock_or_uuid_omitted[OF _ l] by blast
  moreover have "kwargs_arg = None \<longrightarrow> dict_or_empty kwargs_arg = Map.empty"
    by (simp add: dict_or_empty_def)
  ultimately show ?thesis by simp
qed

lemma example_configure:
  "configure no_calendar example_task None None None None (example_world s0)
     = (Inr \<lparr>j_id = None, lock = uuid_str 0, task_name = ''task_func'', j_queue = ''queue'',
             task_kwargs = Map.empty, scheduled_at = None, j_job_store = 0\<rparr>,
        (example_world s0)\<lparr>uuid_source := (\<lambda>n. of_nat (Suc n))\<rparr>)"
  by (simp add: configure_def example_task_def example_world_def Task_init_def
      TaskManager_init_def lock_or_uuid_def uuid4_def dict_or_empty_def)

text \<open>
  The fields at the example task, with every argument omitted.
\<close>

theorem configure_job_fields_witness:
  "\<exists>j w'. configure no_calendar example_task None None None None (example_world (0::nat))
            = (Inr j, w')
     \<and> j_id j = None \<and> task_name j = ''task_func'' \<and> j_queue j = ''queue''
     \<and> j_job_store j = 0 \<and> lock j = uuid_str 0 \<and> task_kwargs j = Map.empty"
proof -
  let ?w = "example_world (0::nat)"
  let ?j = "\<lparr>j_id = None, lock = uuid_str 0, task_name = ''task_func'', j_queue = ''queue'',
             task_kwargs = Map.empty, scheduled_at = None, j_job_store = 0\<rparr> :: int job"
  let ?w' = "?w\<lparr>uuid_source := (\<lambda>n. of_nat (Suc n))\<rparr>"
  have c: "configure no_calendar example_task None None None None ?w = (Inr ?j, ?w')"
    by (rule example_configure)
  have "j_id ?j = None \<and> task_name ?j = ''task_func'' \<and> j_queue ?j = ''queue''
     \<and> j_job_store ?j = 0 \<and> lock ?j = uuid_str 0 \<and> task_kwargs ?j = Map.empty"
    using configure_job_fields[OF c] by simp
  with c show ?thesis by (intro exI[of _ ?j] exI[of _ ?w']) simp
qed

text \<open>
  C7. The lock of a job returned by \<open>configure\<close> is never empty, whatever \<open>lock\<close>
  argument was passed; an empty string passed as \<open>lock\<close> is replaced by a generated
  token. Two \<open>configure\<close> calls in a row with \<open>lock\<close> omitted return different locks
  whenever the generator returns two different UUIDs (the string of a UUID determines
  it). \<open>defer\<close> builds its job by \<open>configure()\<close>: the job it submits to the store has a
  non-empty lock, and keyword arguments it cannot bind (the key \<open>self\<close>) submit nothing.
\<close>

theorem configure_lock_nonempty:
  "(configure cal t lock_arg kwargs_arg schedule_at schedule_in w = (Inr j, w')
      \<longrightarrow> lock j \<noteq> [])
   \<and> (configure cal t (Some []) kwargs_arg schedule_at schedule_in w = (Inr j0, w0)
      \<longrightarrow> lock j0 = uuid_str (uuid_source w 0))
   \<and> (configure cal t None k1 a1 d1 w = (Inr j1, w1)
       \<and> configure cal t None k2 a2 d2 w1 = (Inr j2, w2)
       \<and> uuid_source w 0 \<noteq> uuid_source w 1
      \<longrightarrow> lock j1 \<noteq> lock j2)
   \<and> (''self'' \<notin> dom kwargs
      \<longrightarrow> (\<exists>jd. store_calls (snd (Task_defer cal ops t kwargs w))
                    = store_calls w @ [(j_job_store jd, Defer jd)]
                \<and> lock jd \<noteq> []))
   \<and> (''self'' \<in> dom kwargs
      \<longrightarrow> store_calls (snd (Task_defer cal ops t kwargs w)) = store_calls w)"
proof (intro conjI impI)
  assume "configure cal t lock_arg kwargs_arg schedule_at schedule_in w = (Inr j, w')"
  from configure_Inr[OF this] obtain l where
    "lock_or_uuid lock_arg w = (l, w')" "lock j = l" by auto
  then show "lock j \<noteq> []" using lock_or_uuid_nonempty by blast
next
  assume "configure cal t (Some []) kwargs_arg schedule_at schedule_in w = (Inr j0, w0)"
  from configure_Inr[OF this] obtain l where
    "lock_or_uuid (Some []) w = (l, w0)" "lock j0 = l" by auto
  then show "lock j0 = uuid_str (uuid_source w 0)"
    using lock_or_uuid_omitted[of "Some []" w l w0] by simp
next
  assume a: "configure cal t None k1 a1 d1 w = (Inr j1, w1)
       \<and> configure cal t None k2 a2 d2 w1 = (Inr j2, w2)
       \<and> uuid_source w 0 \<noteq> uuid_source w 1"
  from a configure_Inr[of cal t None k1 a1 d1 w j1 w1] obtain l1 where
    l1: "lock_or_uuid None w = (l1, w1)" "lock j1 = l1" by auto
  from a configure_Inr[of cal t None k2 a2 d2 w1 j2 w2] obtain l2 where
    l2: "lock_or_uuid None w1 = (l2, w2)" "lock j2 = l2" by auto
  from lock_or_uuid_omitted[OF _ l1(1)] have
    e1: "l1 = uuid_str (uuid_source w 0)" and s: "uuid_source w1 = (\<lambda>n. uuid_source w (Suc n))"
    by simp_all
  from lock_or_uuid_omitted[OF _ l2(1)] s have e2: "l2 = uuid_str (uuid_source w 1)"
    by simp
  from a have "uuid_source w 0 \<noteq> uuid_source w 1" by simp
  then have "uuid_str (uuid_source w 0) \<noteq> uuid_str (uuid_source w 1)"
    using uuid_str_inj by blast
  with e1 e2 l1 l2 show "lock j1 \<noteq> lock j2" by simp
next
  assume k: "''self'' \<notin> dom kwargs"
  obtain l wd where l: "lock_or_uuid None w = (l, wd)"
    by (cases "lock_or_uuid None w")
  let ?jd = "\<lparr>j_id = None, lock = l, task_name = name t, j_queue = queue t,
                 task_kwargs = kwargs, scheduled_at = None,
                 j_job_store = job_store (managers w (manager t))\<rparr>"
  have n: "lock ?jd \<noteq> []"
    using lock_or_uuid_nonempty[OF l] by simp
  have "store_calls wd = store_calls w"
    using lock_or_uuid_frame[OF l] by simp
  then have "store_calls (snd (Task_defer cal ops t kwargs w))
               = store_calls w @ [(j_job_store ?jd, Defer ?jd)]"
    unfolding Task_defer_unfold[OF k l] Job_defer_world by simp
  with n show "\<exists>jd. store_calls (snd (Task_defer cal ops t kwargs w))
                    = store_calls w @ [(j_job_store jd, Defer jd)]
                \<and> lock jd \<noteq> []"
    by blast
next
  assume "''self'' \<in> dom kwargs"
  then show "store_calls (snd (Task_defer cal ops t kwargs w)) = store_calls w"
    by (simp add: Task_defer_self)
qed

lemma example_configure2:
  "configure no_calendar example_task None None None None
       ((example_world s0)\<lparr>uuid_source := (\<lambda>n. of_nat (Suc n))\<rparr>)
     = (Inr \<lparr>j_id = None, lock = uuid_str 1, task_name = ''task_func'', j_queue = ''queue'',
             task_kwargs = Map.empty, scheduled_at = None, j_job_store = 0\<rparr>,
        (example_world s0)\<lparr>uuid_source := (\<lambda>n. of_nat (Suc (Suc n)))\<rparr>)"
  by (simp add: configure_def example_task_def example_world_def Task_init_def
      TaskManager_init_def lock_or_uuid_def uuid4_def dict_or_empty_def)

lemma example_configure_empty_lock:
  "configure no_calendar example_task (Some []) None None None (example_world s0)
     = (Inr \<lparr>j_id = None, lock = uuid_str 0, task_name = ''task_func'', j_queue = ''queue'',
             task_kwargs = Map.empty, scheduled_at = None, j_job_store = 0\<rparr>,
        (example_world s0)\<lparr>uuid_source := (\<lambda>n. of_nat (Suc n))\<rparr>)"
  by (simp add: configure_def example_task_def example_world_def Task_init_def
      TaskManager_init_def lock_or_uuid_def uuid4_def dict_or_empty_def)

text \<open>
  The locks at the example task: an empty \<open>lock\<close> argument, then two calls without one.
\<close>

theorem configure_lock_nonempty_witness:
  "(\<exists>j0 w0 j1 w1 j2 w2.
      configure no_calendar example_task (Some []) None None None (example_world (0::nat))
        = (Inr j0, w0)
    \<and> configure no_calendar example_task None None None None (example_world (0::nat))
        = (Inr j1, w1)
    \<and> configure no_calendar example_task None None None None w1 = (Inr j2, w2)
    \<and> lock j0 \<noteq> [] \<and> lock j0 = uuid_str 0 \<and> lock j1 \<noteq> lock j2)
   \<and> (\<exists>jd. store_calls (snd (Task_defer no_calendar flaky_store example_task
                                   [''c'' \<mapsto> 3] (example_world (0::nat))))
               = [(j_job_store jd, Defer jd)]
           \<and> lock jd \<noteq> [])
   \<and> store_calls (snd (Task_defer no_calendar flaky_store example_task
                          [''self'' \<mapsto> 3] (example_world (0::nat)))) = []"
proof -
  let ?w = "example_world (0::nat)"
  let ?j0 = "\<lparr>j_id = None, lock = uuid_str 0, task_name = ''task_func'', j_queue = ''queue'',
             task_kwargs = Map.empty, scheduled_at = None, j_job_store = 0\<rparr> :: int job"
  let ?j1 = "\<lparr>j_id = None, lock = uuid_str 1, task_name = ''task_func'', j_queue = ''queue'',
             task_kwargs = Map.empty, scheduled_at = None, j_job_store = 0\<rparr> :: int job"
  let ?w1 = "?w\<lparr>uuid_source := (\<lambda>n. of_nat (Suc n))\<rparr>"
  let ?w2 = "?w\<lparr>uuid_source := (\<lambda>n. of_nat (Suc (Suc n)))\<rparr>"
  have c0: "configure no_calendar example_task (Some []) None None None ?w = (Inr ?j0, ?w1)"
    by (rule example_configure_empty_lock)
  have c1: "configure no_calendar example_task None None None None ?w = (Inr ?j0, ?w1)"
    by (rule example_configure)
  have c2: "configure no_calendar example_task None None None None ?w1 = (Inr ?j1, ?w2)"
    by (rule example_configure2)
  have d: "uuid_source ?w 0 \<noteq> uuid_source ?w 1"
    by (simp add: example_world_def)
  have u: "uuid_source ?w 0 = 0"
    by (simp add: example_world_def)
  note th = configure_lock_nonempty[where cal = no_calendar and t = example_task
      and lock_arg = "Some []" and kwargs_arg = None and schedule_at = None
      and schedule_in = None and w = ?w and j = ?j0 and w' = ?w1 and ?j0.0 = ?j0
      and ?w0.0 = ?w1 and ?k1.0 = None and ?a1.0 = None and ?d1.0 = None and ?j1.0 = ?j0
      and ?w1.0 = ?w1 and ?k2.0 = None and ?a2.0 = None and ?d2.0 = None and ?j2.0 = ?j1
      and ?w2.0 = ?w2 and ops = flaky_store and kwargs = "[''c'' \<mapsto> 3]"]
  note th' = configure_lock_nonempty[where cal = no_calendar and t = example_task
      and lock_arg = "Some []" and kwargs_arg = None and schedule_at = None
      and schedule_in = None and w = ?w and j = ?j0 and w' = ?w1 and ?j0.0 = ?j0
      and ?w0.0 = ?w1 and ?k1.0 = None and ?a1.0 = None and ?d1.0 = None and ?j1.0 = ?j0
      and ?w1.0 = ?w1 and ?k2.0 = None and ?a2.0 = None and ?d2.0 = None and ?j2.0 = ?j1
      and ?w2.0 = ?w2 and ops = flaky_store and kwargs = "[''self'' \<mapsto> 3]"]
  from th c0 have n: "lock ?j0 \<noteq> []" by blast
  from th c0 u have e: "lock ?j0 = uuid_str 0" by simp
  from th c1 c2 d have f: "lock ?j0 \<noteq> lock ?j1" by blast
  have tr: "store_calls ?w = []"
    by (simp add: example_world_def)
  have "''self'' \<notin> dom [''c'' \<mapsto> (3::int)]" by simp
  with th tr have g: "\<exists>jd. store_calls (snd (Task_defer no_calendar flaky_store example_task
                                   [''c'' \<mapsto> 3] ?w))
               = [(j_job_store jd, Defer jd)]
           \<and> lock jd \<noteq> []"
    by simp
  have "''self'' \<in> dom [''self'' \<mapsto> (3::int)]" by simp
  with th' tr have h: "store_calls (snd (Task_defer no_calendar flaky_store example_task
                          [''self'' \<mapsto> 3] ?w)) = []"
    by simp
  from c0 c1 c2 n e f have "\<exists>j0 w0 j1 w1 j2 w2.
      configure no_calendar example_task (Some []) None None None ?w = (Inr j0, w0)
    \<and> configure no_calendar example_task None None None None ?w = (Inr j1, w1)
    \<and> configure no_calendar example_task None None None None w1 = (Inr j2, w2)
    \<and> lock j0 \<noteq> [] \<and> lock j0 = uuid_str 0 \<and> lock j1 \<noteq> lock j2"
    by (intro exI[of _ ?j0] exI[of _ ?w1] exI[of _ ?j1] exI[of _ ?w2] conjI)
  with g h show ?thesis by (intro conjI)
qed

text \<open>
  C2. A \<open>configure\<close> call that supplies both \<open>schedule_at\<close> and \<open>schedule_in\<close> raises the
  \<open>ValueError\<close> (the spec's \<open>InvalidConfiguration\<close>) whatever the two values are, the
  empty duration included, and leaves the world as it was.
\<close>

theorem configure_both_schedules_fails:
  "configure cal t lock_arg kwargs_arg (Some at) (Some d) w
     = (Inl (ValueError ''Cannot set both schedule_at and schedule_in''), w)
   \<and> configure cal t lock_arg kwargs_arg (Some at) (Some Map.empty) w
     = (Inl (ValueError ''Cannot set both schedule_at and schedule_in''), w)"
  by (simp add: configure_def)

subsection \<open>Scheduling\<close>

lemma pendulum_add_fixed:
  "pendulum_add cal t d = Inr t' \<Longrightarrow> kwarg d ''years'' = 0 \<Longrightarrow> kwarg d ''months'' = 0
     \<Longrightarrow> t' = t + fixed_micros d"
  unfolding pendulum_add_def by (simp add: Let_def split: if_splits)

lemma pendulum_add_empty: "valid_datetime t \<Longrightarrow> pendulum_add cal t Map.empty = Inr t"
  by (simp add: pendulum_add_def kwarg_def fixed_micros_def)

lemma valid_example_time: "valid_datetime (pendulum_datetime 2000 1 1 2 0 0)"
  by (simp add: valid_datetime_def datetime_min_def datetime_max_def pendulum_datetime_def
      days_from_civil_def Let_def)

lemma pendulum_add_two_hours:
  "pendulum_add cal (pendulum_datetime 2000 1 1 0 0 0) [''hours'' \<mapsto> 2]
     = Inr (pendulum_datetime 2000 1 1 2 0 0)"
proof -
  have "dom [''hours'' \<mapsto> (2::int)] \<subseteq> set duration_units"
    by (simp add: duration_units_def)
  moreover have "fixed_micros [''hours'' \<mapsto> 2] = 7200000000"
    by (simp add: fixed_micros_def kwarg_def)
  moreover have "kwarg [''hours'' \<mapsto> 2] ''years'' = 0" "kwarg [''hours'' \<mapsto> 2] ''months'' = 0"
    by (simp_all add: kwarg_def)
  moreover have "pendulum_datetime 2000 1 1 0 0 0 + 7200000000 = pendulum_datetime 2000 1 1 2 0 0"
    by (simp add: pendulum_datetime_def)
  ultimately show ?thesis
    using valid_example_time by (simp add: pendulum_add_def)
qed

lemma configure_schedule_in_ok:
  assumes "pendulum_add cal (now w) d = Inr t'"
  shows "\<exists>j w'. configure cal t lock_arg kwargs_arg None (Some d) w = (Inr j, w')
           \<and> scheduled_at j = Some t'"
  using assms unfolding configure_def
  by (cases "lock_or_uuid lock_arg w") simp

lemma pendulum_add_fixed_ok:
  assumes "dom d \<subseteq> set duration_units" and "kwarg d ''years'' = 0"
      and "kwarg d ''months'' = 0" and "valid_datetime (t + fixed_micros d)"
  shows "pendulum_add cal t d = Inr (t + fixed_micros d)"
  using assms by (simp add: pendulum_add_def)

lemma configure_schedule_in_fails:
  assumes "pendulum_add cal (now w) d = Inl e"
  shows "configure cal t lock_arg kwargs_arg None (Some d) w = (Inl e, w)"
  using assms by (simp add: configure_def)

text \<open>
  C3. When \<open>schedule_in\<close> is supplied and \<open>schedule_at\<close> is not, the job returned has
  \<open>scheduled_at\<close> equal to what \<open>pendulum.now("UTC").add(**schedule_in)\<close> returns for the
  clock as it reads when \<open>configure\<close> runs; for a duration without years and months that
  is the clock plus the length of the duration. The call returns such a job whenever
  \<open>add\<close> returns, and raises what \<open>add\<close> raises otherwise; in particular it returns for
  every duration whose keys are unit names, without years and months, that leads to an
  instant in the range of \<open>datetime\<close>. With the clock at 2000-01-01T00:00:00 UTC,
  \<open>schedule_in = {"hours": 2}\<close> gives 2000-01-01T02:00:00 UTC.
\<close>

theorem configure_schedule_in:
  "(configure cal t lock_arg kwargs_arg None (Some d) w = (Inr j, w')
      \<longrightarrow> (\<exists>t'. pendulum_add cal (now w) d = Inr t' \<and> scheduled_at j = Some t'
                \<and> (kwarg d ''years'' = 0 \<and> kwarg d ''months'' = 0
                     \<longrightarrow> t' = now w + fixed_micros d)))
   \<and> (dom d \<subseteq> set duration_units \<and> kwarg d ''years'' = 0 \<and> kwarg d ''months'' = 0
       \<and> valid_datetime (now w + fixed_micros d)
      \<longrightarrow> (\<exists>j1 w1. configure cal t lock_arg kwargs_arg None (Some d) w = (Inr j1, w1)
                    \<and> scheduled_at j1 = Some (now w + fixed_micros d)))
   \<and> (pendulum_add cal (now w) d = Inr t3
      \<longrightarrow> (\<exists>j3 w3. configure cal t lock_arg kwargs_arg None (Some d) w = (Inr j3, w3)
                    \<and> scheduled_at j3 = Some t3))
   \<and> (pendulum_add cal (now w) d = Inl e
      \<longrightarrow> configure cal t lock_arg kwargs_arg None (Some d) w = (Inl e, w))
   \<and> (now w = pendulum_datetime 2000 1 1 0 0 0
      \<longrightarrow> (\<exists>j2 w2. configure cal t lock_arg kwargs_arg None (Some [''hours'' \<mapsto> 2]) w
                        = (Inr j2, w2)
                    \<and> scheduled_at j2 = Some (pendulum_datetime 2000 1 1 2 0 0)))"
proof (intro conjI impI)
  assume a: "configure cal t lock_arg kwargs_arg None (Some d) w = (Inr j, w')"
  from configure_Inr[OF a] obtain t' where
    t: "pendulum_add cal (now w) d = Inr t'" "scheduled_at j = Some t'"
    by auto
  with pendulum_add_fixed[OF t(1)]
  show "\<exists>t'. pendulum_add cal (now w) d = Inr t' \<and> scheduled_at j = Some t'
                \<and> (kwarg d ''years'' = 0 \<and> kwarg d ''months'' = 0
                     \<longrightarrow> t' = now w + fixed_micros d)"
    by blast
next
  assume "dom d \<subseteq> set duration_units \<and> kwarg d ''years'' = 0 \<and> kwarg d ''months'' = 0
       \<and> valid_datetime (now w + fixed_micros d)"
  then have "pendulum_add cal (now w) d = Inr (now w + fixed_micros d)"
    by (simp add: pendulum_add_fixed_ok)
  then show "\<exists>j1 w1. configure cal t lock_arg kwargs_arg None (Some d) w = (Inr j1, w1)
                    \<and> scheduled_at j1 = Some (now w + fixed_micros d)"
    by (rule configure_schedule_in_ok)
next
  assume "pendulum_add cal (now w) d = Inr t3"
  then show "\<exists>j3 w3. configure cal t lock_arg kwargs_arg None (Some d) w = (Inr j3, w3)
                    \<and> scheduled_at j3 = Some t3"
    by (rule configure_schedule_in_ok)
next
  assume "pendulum_add cal (now w) d = Inl e"
  then show "configure cal t lock_arg kwargs_arg None (Some d) w = (Inl e, w)"
    by (rule configure_schedule_in_fails)
next
  assume "now w = pendulum_datetime 2000 1 1 0 0 0"
  then have "pendulum_add cal (now w) [''hours'' \<mapsto> 2] = Inr (pendulum_datetime 2000 1 1 2 0 0)"
    by (simp add: pendulum_add_two_hours)
  then show "\<exists>j2 w2. configure cal t lock_arg kwargs_arg None (Some [''hours'' \<mapsto> 2]) w
                        = (Inr j2, w2)
                    \<and> scheduled_at j2 = Some (pendulum_datetime 2000 1 1 2 0 0)"
    by (rule configure_schedule_in_ok)
qed

text \<open>
  Two hours from the example clock, by each part of the statement, and a duration with
  a key that is no unit name.
\<close>

theorem configure_schedule_in_witness:
  "(\<exists>j w'. configure no_calendar example_task None None None (Some [''hours'' \<mapsto> 2])
             (example_world (0::nat)) = (Inr j, w')
     \<and> scheduled_at j = Some (pendulum_datetime 2000 1 1 2 0 0)
     \<and> scheduled_at j = Some (now (example_world (0::nat)) + 7200000000))
   \<and> configure no_calendar example_task None None None (Some [''fortnights'' \<mapsto> 1])
        (example_world (0::nat))
      = (Inl TypeError :: string error + int job, example_world 0)"
proof -
  let ?w = "example_world (0::nat)"
  let ?d = "[''hours'' \<mapsto> (2::int)]"
  let ?bad = "[''fortnights'' \<mapsto> (1::int)]"
  note th = configure_schedule_in[where cal = no_calendar and t = example_task
      and lock_arg = None and kwargs_arg = None and w = ?w]
  have n: "now ?w = pendulum_datetime 2000 1 1 0 0 0"
    by (simp add: example_world_def)
  have k: "kwarg ?d ''years'' = 0 \<and> kwarg ?d ''months'' = 0"
    by (simp add: kwarg_def)
  have f: "fixed_micros ?d = 7200000000"
    by (simp add: fixed_micros_def kwarg_def)
  have u: "dom ?d \<subseteq> set duration_units"
    by (simp add: duration_units_def)
  have e: "now ?w + 7200000000 = pendulum_datetime 2000 1 1 2 0 0"
    by (simp add: n pendulum_datetime_def)
  have v: "valid_datetime (now ?w + fixed_micros ?d)"
    unfolding f e by (rule valid_example_time)
  from u k v th[where d = ?d]
  obtain j w' where
    c: "configure no_calendar example_task None None None (Some ?d) ?w = (Inr j, w')"
    and s1: "scheduled_at j = Some (now ?w + fixed_micros ?d)"
    by blast
  from c th[where d = ?d and j = j and w' = w']
  obtain t' where p: "pendulum_add no_calendar (now ?w) ?d = Inr t'" "scheduled_at j = Some t'"
    by blast
  from p(1) th[where d = ?d and ?t3.0 = t']
  obtain j3 w3 where
    "configure no_calendar example_task None None None (Some ?d) ?w = (Inr j3, w3)"
    "scheduled_at j3 = Some t'"
    by blast
  from n th[where d = ?d]
  obtain j2 w2 where
    "configure no_calendar example_task None None None (Some ?d) ?w = (Inr j2, w2)"
    "scheduled_at j2 = Some (pendulum_datetime 2000 1 1 2 0 0)"
    by blast
  with c have s2: "scheduled_at j = Some (pendulum_datetime 2000 1 1 2 0 0)" by simp
  from s1 f have s3: "scheduled_at j = Some (now ?w + 7200000000)" by simp
  have "pendulum_add no_calendar (now ?w) ?bad = Inl TypeError"
    by (simp add: pendulum_add_def duration_units_def)
  with th[where d = ?bad and e = TypeError]
  have b: "configure no_calendar example_task None None None (Some ?bad) ?w
             = (Inl TypeError, ?w)"
    by blast
  from c s2 s3 have "\<exists>j w'. configure no_calendar example_task None None None (Some ?d) ?w
        = (Inr j, w')
     \<and> scheduled_at j = Some (pendulum_datetime 2000 1 1 2 0 0)
     \<and> scheduled_at j = Some (now ?w + 7200000000)"
    by blast
  with b show ?thesis by (intro conjI)
qed

text \<open>
  C10. With \<open>schedule_in\<close> the empty dict and no \<open>schedule_at\<close>, \<open>configure\<close> returns a job,
  and its \<open>scheduled_at\<close> is the clock's reading at the call, not \<open>None\<close>. (The clock
  reads a datetime, that is, an instant in the range of \<open>datetime\<close>.)
\<close>

theorem configure_empty_schedule_in:
  assumes "valid_datetime (now w)"
  shows "\<exists>j w'. configure cal t lock_arg kwargs_arg None (Some Map.empty) w = (Inr j, w')
           \<and> scheduled_at j = Some (now w) \<and> scheduled_at j \<noteq> None"
proof -
  from assms have "pendulum_add cal (now w) Map.empty = Inr (now w)"
    by (rule pendulum_add_empty)
  from configure_schedule_in_ok[OF this, where t = t and lock_arg = lock_arg
      and kwargs_arg = kwargs_arg]
  show ?thesis by auto
qed

lemma valid_example_now: "valid_datetime (now (example_world s0))"
  by (simp add: example_world_def valid_datetime_def datetime_min_def datetime_max_def
      pendulum_datetime_def days_from_civil_def Let_def)

theorem configure_empty_schedule_in_witness:
  "valid_datetime (now (example_world (0::nat)))
   \<and> (\<exists>j w'. configure no_calendar example_task None None None (Some Map.empty)
                (example_world (0::nat)) = (Inr j, w')
           \<and> scheduled_at j = Some (pendulum_datetime 2000 1 1 0 0 0))"
proof -
  have n: "now (example_world (0::nat)) = pendulum_datetime 2000 1 1 0 0 0"
    by (simp add: example_world_def)
  from configure_empty_schedule_in[OF valid_example_now, of no_calendar example_task None None 0]
  obtain j w' where
    "configure no_calendar example_task None None None (Some Map.empty)
       (example_world (0::nat)) = (Inr j, w')"
    "scheduled_at j = Some (now (example_world (0::nat)))"
    by blast
  with n valid_example_now[of "0::nat"] show ?thesis by auto
qed

subsection \<open>Deferring, calling, registering\<close>

lemma configure_kwargs_unfold:
  assumes "lock_or_uuid None w = (l, w1)"
  shows "configure cal t None (Some kwargs) None None w =
           (Inr \<lparr>j_id = None, lock = l, task_name = name t, j_queue = queue t,
                 task_kwargs = kwargs, scheduled_at = None,
                 j_job_store = job_store (managers w (manager t))\<rparr>, w1)"
  using assms by (simp add: configure_def dict_or_empty_def)

lemma example_configure_kwargs:
  "configure no_calendar example_task None (Some kw) None None (example_world s0)
     = (Inr \<lparr>j_id = None, lock = uuid_str 0, task_name = ''task_func'', j_queue = ''queue'',
             task_kwargs = kw, scheduled_at = None, j_job_store = 0\<rparr>,
        (example_world s0)\<lparr>uuid_source := (\<lambda>n. of_nat (Suc n))\<rparr>)"
  by (simp add: configure_def example_task_def example_world_def Task_init_def
      TaskManager_init_def lock_or_uuid_def uuid4_def dict_or_empty_def)

text \<open>
  C1, as the claim states it, fails for keyword arguments with the key \<open>self\<close>:
  \<open>configure(task_kwargs={"self": 1})\<close> returns a job and the in-memory store would
  accept it under the identifier 0, but \<open>defer(**{"self": 1})\<close> raises a \<open>TypeError\<close> and
  leaves the world as it was: nothing is configured and nothing submitted.
\<close>

theorem defer_self_keyword_raises:
  "Task_defer no_calendar memory_store example_task [''self'' \<mapsto> 1] (example_world [])
     = (Inl TypeError, example_world [])
   \<and> configure no_calendar example_task None (Some [''self'' \<mapsto> 1]) None None
        (example_world ([] :: int job list))
     = (Inr \<lparr>j_id = None, lock = uuid_str 0, task_name = ''task_func'', j_queue = ''queue'',
             task_kwargs = [''self'' \<mapsto> 1], scheduled_at = None, j_job_store = 0\<rparr>,
        (example_world [])\<lparr>uuid_source := (\<lambda>n. of_nat (Suc n))\<rparr>)
   \<and> fst (store_defer memory_store
             \<lparr>j_id = None, lock = uuid_str 0, task_name = ''task_func'', j_queue = ''queue'',
              task_kwargs = [''self'' \<mapsto> 1], scheduled_at = None, j_job_store = 0\<rparr> [])
     = Inr 0"
proof (intro conjI)
  show "Task_defer no_calendar memory_store example_task [''self'' \<mapsto> 1] (example_world [])
     = (Inl TypeError, example_world [])"
    by (simp add: Task_defer_def)
  show "configure no_calendar example_task None (Some [''self'' \<mapsto> 1]) None None
        (example_world ([] :: int job list))
     = (Inr \<lparr>j_id = None, lock = uuid_str 0, task_name = ''task_func'', j_queue = ''queue'',
             task_kwargs = [''self'' \<mapsto> 1], scheduled_at = None, j_job_store = 0\<rparr>,
        (example_world [])\<lparr>uuid_source := (\<lambda>n. of_nat (Suc n))\<rparr>)"
    by (rule example_configure_kwargs)
  show "fst (store_defer memory_store
             \<lparr>j_id = None, lock = uuid_str 0, task_name = ''task_func'', j_queue = ''queue'',
              task_kwargs = [''self'' \<mapsto> 1], scheduled_at = None, j_job_store = 0\<rparr> [])
     = Inr 0"
    by (simp add: memory_store_def)
qed

text \<open>
  C1, amended. For keyword arguments without the key \<open>self\<close>,
  \<open>Task.defer(**kwargs)\<close> does what \<open>configure(task_kwargs=kwargs)\<close> followed by the
  submission of the job to its store does: the job \<open>j\<close> that \<open>configure\<close> returns for
  these keyword arguments is the job the store receives, in the world \<open>configure\<close>
  leaves; the result of \<open>defer\<close> is the result of the store's call, the identifier it
  assigned or the error it raised, unchanged; and the world afterwards differs only by
  the store's new state and the one call recorded. Keyword arguments with the key
  \<open>self\<close> raise a \<open>TypeError\<close> and change nothing.
\<close>

theorem defer_is_configure_then_submit:
  "(''self'' \<notin> dom kwargs \<longrightarrow>
      (\<exists>j w1. configure cal t None (Some kwargs) None None w = (Inr j, w1)
         \<and> task_kwargs j = kwargs
         \<and> fst (Task_defer cal ops t kwargs w)
             = fst (store_defer ops j (stores w1 (j_job_store j)))
         \<and> snd (Task_defer cal ops t kwargs w)
             = w1\<lparr>stores := (stores w1)
                      (j_job_store j := snd (store_defer ops j (stores w1 (j_job_store j)))),
                   store_calls := store_calls w @ [(j_job_store j, Defer j)]\<rparr>))
   \<and> (''self'' \<in> dom kwargs \<longrightarrow> Task_defer cal ops t kwargs w = (Inl TypeError, w))"
proof (intro conjI impI)
  assume k: "''self'' \<notin> dom kwargs"
  obtain l w1 where l: "lock_or_uuid None w = (l, w1)"
    by (cases "lock_or_uuid None w")
  let ?j = "\<lparr>j_id = None, lock = l, task_name = name t, j_queue = queue t,
                 task_kwargs = kwargs, scheduled_at = None,
                 j_job_store = job_store (managers w (manager t))\<rparr>"
  have c: "configure cal t None (Some kwargs) None None w = (Inr ?j, w1)"
    using l by (rule configure_kwargs_unfold)
  have s: "store_calls w1 = store_calls w"
    using lock_or_uuid_frame[OF l] by simp
  have d: "Task_defer cal ops t kwargs w
             = Job_defer ops (?j\<lparr>task_kwargs := Map.empty\<rparr>) kwargs w1"
    using Task_defer_unfold[OF k l] by simp
  have "fst (Task_defer cal ops t kwargs w)
         = fst (store_defer ops ?j (stores w1 (j_job_store ?j)))"
    unfolding d Job_defer_result by simp
  moreover have "snd (Task_defer cal ops t kwargs w)
         = w1\<lparr>stores := (stores w1)
                  (j_job_store ?j := snd (store_defer ops ?j (stores w1 (j_job_store ?j)))),
               store_calls := store_calls w @ [(j_job_store ?j, Defer ?j)]\<rparr>"
    unfolding d Job_defer_world by (simp add: s)
  moreover have "task_kwargs ?j = kwargs" by simp
  ultimately show "\<exists>j w1. configure cal t None (Some kwargs) None None w = (Inr j, w1)
         \<and> task_kwargs j = kwargs
         \<and> fst (Task_defer cal ops t kwargs w)
             = fst (store_defer ops j (stores w1 (j_job_store j)))
         \<and> snd (Task_defer cal ops t kwargs w)
             = w1\<lparr>stores := (stores w1)
                      (j_job_store j := snd (store_defer ops j (stores w1 (j_job_store j)))),
                   store_calls := store_calls w @ [(j_job_store j, Defer j)]\<rparr>"
    using c by blast
next
  assume "''self'' \<in> dom kwargs"
  then show "Task_defer cal ops t kwargs w = (Inl TypeError, w)"
    by (rule Task_defer_self)
qed

text \<open>
  The scenario of \<open>test_task_defer\<close>: on the in-memory store, \<open>defer(c=3)\<close> returns 0 and
  the store holds one job, with id 0 and \<open>task_kwargs = {"c": 3}\<close>; \<open>defer(**{"self": 3})\<close>
  raises.
\<close>

theorem defer_is_configure_then_submit_witness:
  "fst (Task_defer no_calendar memory_store example_task [''c'' \<mapsto> 3] (example_world []))
     = Inr 0
   \<and> stores (snd (Task_defer no_calendar memory_store example_task [''c'' \<mapsto> 3]
                     (example_world []))) 0
     = [\<lparr>j_id = Some 0, lock = uuid_str 0, task_name = ''task_func'', j_queue = ''queue'',
         task_kwargs = [''c'' \<mapsto> 3], scheduled_at = None, j_job_store = 0\<rparr>]
   \<and> Task_defer no_calendar memory_store example_task [''self'' \<mapsto> 3] (example_world [])
     = (Inl TypeError, example_world [])"
proof -
  let ?w = "example_world ([] :: int job list)"
  let ?kw = "[''c'' \<mapsto> (3::int)]"
  let ?j = "\<lparr>j_id = None, lock = uuid_str 0, task_name = ''task_func'', j_queue = ''queue'',
             task_kwargs = ?kw, scheduled_at = None, j_job_store = 0\<rparr>"
  let ?w1 = "?w\<lparr>uuid_source := (\<lambda>n. of_nat (Suc n))\<rparr>"
  have k: "''self'' \<notin> dom ?kw" by simp
  have c: "configure no_calendar example_task None (Some ?kw) None None ?w = (Inr ?j, ?w1)"
    by (rule example_configure_kwargs)
  from k c defer_is_configure_then_submit[of ?kw no_calendar example_task ?w memory_store]
  have r: "fst (Task_defer no_calendar memory_store example_task ?kw ?w)
             = fst (store_defer memory_store ?j (stores ?w1 (j_job_store ?j)))"
    and sw: "snd (Task_defer no_calendar memory_store example_task ?kw ?w)
             = ?w1\<lparr>stores := (stores ?w1)
                      (j_job_store ?j :=
                         snd (store_defer memory_store ?j (stores ?w1 (j_job_store ?j)))),
                   store_calls := store_calls ?w @ [(j_job_store ?j, Defer ?j)]\<rparr>"
    by auto
  have st: "stores ?w1 (j_job_store ?j) = []"
    by (simp add: example_world_def)
  have a: "fst (Task_defer no_calendar memory_store example_task ?kw ?w) = Inr 0"
    unfolding r st by (simp add: memory_store_def)
  have b: "stores (snd (Task_defer no_calendar memory_store example_task ?kw ?w)) 0
     = [\<lparr>j_id = Some 0, lock = uuid_str 0, task_name = ''task_func'', j_queue = ''queue'',
         task_kwargs = ?kw, scheduled_at = None, j_job_store = 0\<rparr>]"
    unfolding sw st by (simp add: memory_store_def)
  have "''self'' \<in> dom [''self'' \<mapsto> (3::int)]" by simp
  with defer_is_configure_then_submit[of "[''self'' \<mapsto> (3::int)]" no_calendar example_task
      ?w memory_store]
  have "Task_defer no_calendar memory_store example_task [''self'' \<mapsto> 3] ?w
          = (Inl TypeError, ?w)"
    by blast
  with a b show ?thesis by (intro conjI)
qed

text \<open>
  C8, as the claim states it, fails for keyword arguments with the key \<open>self\<close>: the work
  unit \<open>def work(**kwargs): return kwargs.get("x", 0) + 1\<close> returns 1 for
  \<open>{"self": 1}\<close>, but calling the task with these keyword arguments raises a \<open>TypeError\<close>
  and the work unit is not run.
\<close>

theorem call_self_keyword_raises:
  "Task_call work_run example_task [''self'' \<mapsto> 1] (example_world (0::nat))
     = (Inl TypeError, example_world 0)
   \<and> work_run (func example_task) [''self'' \<mapsto> 1] (example_world (0::nat))
     = (Inr 1, example_world 0)"
  by (simp add: Task_call_def work_run_def kwarg_def)

text \<open>
  C8, amended. For keyword arguments without the key \<open>self\<close>, calling a task runs its
  work unit on them: the value returned or the exception raised is the work unit's, and
  so is the world left behind, so the stores and the store calls made are those of the
  work unit and the call adds none. Keyword arguments with the key \<open>self\<close> raise a
  \<open>TypeError\<close>; the work unit is not run and the world is as before.
\<close>

theorem task_call_is_work_unit:
  "(''self'' \<notin> dom kwargs \<longrightarrow>
        Task_call run t kwargs w = run (func t) kwargs w
      \<and> stores (snd (Task_call run t kwargs w)) = stores (snd (run (func t) kwargs w))
      \<and> store_calls (snd (Task_call run t kwargs w))
          = store_calls (snd (run (func t) kwargs w)))
   \<and> (''self'' \<in> dom kwargs \<longrightarrow> Task_call run t kwargs w = (Inl TypeError, w))"
  by (simp add: Task_call_def)

text \<open>
  The work unit that adds 1 to \<open>x\<close> called with \<open>x=41\<close>, the work unit that raises, and
  a call with the key \<open>self\<close>.
\<close>

theorem task_call_is_work_unit_witness:
  "Task_call work_run example_task [''x'' \<mapsto> 41] (example_world (0::nat))
     = (Inr 42, example_world 0)
   \<and> Task_call raising_run example_task [''x'' \<mapsto> 41] (example_world (0::nat))
     = (Inl (Raised ''work unit failed''), example_world 0)
   \<and> store_calls (snd (Task_call work_run example_task [''x'' \<mapsto> 41]
                          (example_world (0::nat)))) = []
   \<and> Task_call work_run example_task [''self'' \<mapsto> 41] (example_world (0::nat))
     = (Inl TypeError, example_world 0)"
proof -
  let ?w = "example_world (0::nat)"
  have k: "''self'' \<notin> dom [''x'' \<mapsto> (41::int)]" by simp
  have a: "Task_call work_run example_task [''x'' \<mapsto> 41] ?w = (Inr 42, ?w)"
    using k task_call_is_work_unit[of "[''x'' \<mapsto> 41]" work_run example_task ?w]
    by (simp add: work_run_def kwarg_def)
  have b: "Task_call raising_run example_task [''x'' \<mapsto> 41] ?w
             = (Inl (Raised ''work unit failed''), ?w)"
    using k task_call_is_work_unit[of "[''x'' \<mapsto> 41]" raising_run example_task ?w]
    by (simp add: raising_run_def)
  have c: "store_calls (snd (Task_call work_run example_task [''x'' \<mapsto> 41] ?w)) = []"
    using k task_call_is_work_unit[of "[''x'' \<mapsto> 41]" work_run example_task ?w]
    by (simp add: work_run_def example_world_def)
  have "''self'' \<in> dom [''self'' \<mapsto> (41::int)]" by simp
  with task_call_is_work_unit[of "[''self'' \<mapsto> 41]" work_run example_task ?w]
  have d: "Task_call work_run example_task [''self'' \<mapsto> 41] ?w = (Inl TypeError, ?w)"
    by blast
  from a b c d show ?thesis by (intro conjI)
qed

text \<open>
  C6. When the queue of the task is not yet known and the store's \<open>register_queue\<close> call
  raises, \<open>register\<close> raises the same exception; the task is in the manager's \<open>tasks\<close>
  under its name all the same, and the manager's \<open>queues\<close> are as before, the queue not
  among them.
\<close>

theorem register_provisioning_failure:
  assumes "queue t \<notin> queues (managers w m)"
      and "fst (register_queue ops (queue t) (stores w (job_store (managers w m)))) = Inl e"
  shows "fst (register ops m t w) = Inl e
       \<and> tasks (managers (snd (register ops m t w)) m) = (tasks (managers w m))(name t \<mapsto> t)
       \<and> tasks (managers (snd (register ops m t w)) m) (name t) = Some t
       \<and> queues (managers (snd (register ops m t w)) m) = queues (managers w m)
       \<and> queue t \<notin> queues (managers (snd (register ops m t w)) m)"
proof -
  obtain r s' where
    rq: "register_queue ops (queue t) (stores w (job_store (managers w m))) = (r, s')"
    by (cases "register_queue ops (queue t) (stores w (job_store (managers w m)))")
  with assms(2) have r: "r = Inl e" by simp
  have "register ops m t w =
          (Inl e, w\<lparr>managers := (managers w)
                       (m := (managers w m)\<lparr>tasks := (tasks (managers w m))(name t \<mapsto> t)\<rparr>),
                     stores := (stores w)(job_store (managers w m) := s'),
                     store_calls := store_calls w
                        @ [(job_store (managers w m), RegisterQueue (queue t))]\<rparr>)"
    using assms(1) rq r by (simp add: register_def Let_def)
  then show ?thesis using assms(1) by simp
qed

theorem register_provisioning_failure_witness:
  "fst (register flaky_store 0 example_task (example_world 0)) = Inl (Raised ''StoreError'')
   \<and> tasks (managers (snd (register flaky_store 0 example_task (example_world 0))) 0)
        ''task_func'' = Some example_task
   \<and> queues (managers (snd (register flaky_store 0 example_task (example_world 0))) 0) = {}"
proof -
  let ?w = "example_world (0::nat)"
  have q: "queue example_task \<notin> queues (managers ?w 0)"
    by (simp add: example_world_def TaskManager_init_def)
  have f: "fst (register_queue flaky_store (queue example_task)
                 (stores ?w (job_store (managers ?w 0)))) = Inl (Raised ''StoreError'')"
    by (simp add: flaky_store_def example_world_def)
  have n: "name example_task = ''task_func''" "queues (managers ?w 0) = {}"
    by (simp_all add: example_task_def Task_init_def example_world_def TaskManager_init_def)
  from register_provisioning_failure[OF q f] n show ?thesis by simp
qed

subsection \<open>Queue provisioning over a sequence of registrations\<close>

lemma queue_calls_append:
  "queue_calls q (xs @ ys) = queue_calls q xs + queue_calls q ys"
  by (simp add: queue_calls_def)

lemma register_known:
  assumes "queue t \<in> queues (managers w m)"
  shows "register ops m t w
           = (Inr (), w\<lparr>managers := (managers w)
                (m := (managers w m)\<lparr>tasks := (tasks (managers w m))(name t \<mapsto> t)\<rparr>)\<rparr>)"
  using assms by (simp add: register_def Let_def)

lemma register_unknown:
  assumes "queue t \<notin> queues (managers w m)"
      and "register_queue ops (queue t) (stores w (job_store (managers w m))) = (r, s')"
  shows "register ops m t w =
     (let mgr1 = (managers w m)\<lparr>tasks := (tasks (managers w m))(name t \<mapsto> t)\<rparr>;
          tr = store_calls w @ [(job_store (managers w m), RegisterQueue (queue t))];
          st = (stores w)(job_store (managers w m) := s')
      in case r of
           Inl e \<Rightarrow> (Inl e, w\<lparr>managers := (managers w)(m := mgr1), stores := st,
                              store_calls := tr\<rparr>)
         | Inr u \<Rightarrow> (Inr (), w\<lparr>managers := (managers w)
                                 (m := mgr1\<lparr>queues := insert (queue t) (queues mgr1)\<rparr>),
                              stores := st, store_calls := tr\<rparr>))"
  using assms by (simp add: register_def Let_def split: sum.splits)

lemma register_store_calls:
  "store_calls (snd (register ops m t w)) =
     store_calls w @ (if queue t \<in> queues (managers w m) then []
                      else [(job_store (managers w m), RegisterQueue (queue t))])"
proof (cases "queue t \<in> queues (managers w m)")
  case True
  then show ?thesis by (simp add: register_known)
next
  case False
  obtain r s' where
    "register_queue ops (queue t) (stores w (job_store (managers w m))) = (r, s')"
    by (cases "register_queue ops (queue t) (stores w (job_store (managers w m)))")
  from register_unknown[OF False this] False show ?thesis
    by (simp add: Let_def split: sum.splits)
qed

lemma register_queues:
  "queues (managers (snd (register ops m t w)) m)
     = (if isl (fst (register ops m t w)) then queues (managers w m)
        else insert (queue t) (queues (managers w m)))"
proof (cases "queue t \<in> queues (managers w m)")
  case True
  then show ?thesis by (auto simp: register_known)
next
  case False
  obtain r s' where
    rq: "register_queue ops (queue t) (stores w (job_store (managers w m))) = (r, s')"
    by (cases "register_queue ops (queue t) (stores w (job_store (managers w m)))")
  from register_unknown[OF False rq] show ?thesis
    by (cases r) (simp_all add: Let_def)
qed

lemma register_known_returns:
  "queue t \<in> queues (managers w m) \<Longrightarrow> \<not> isl (fst (register ops m t w))"
  by (simp add: register_known)

lemma length_register_seq: "length (fst (register_seq ops m ts w)) = length ts"
proof (induction ts arbitrary: w)
  case Nil
  then show ?case by simp
next
  case (Cons t ts)
  obtain r w1 where r: "register ops m t w = (r, w1)"
    by (cases "register ops m t w")
  obtain rs w2 where rs: "register_seq ops m ts w1 = (rs, w2)"
    by (cases "register_seq ops m ts w1")
  from Cons.IH[of w1] rs have "length rs = length ts" by simp
  with r rs show ?case by simp
qed

lemma register_seq_count:
  "queue_calls q (store_calls (snd (register_seq ops m ts w)))
     = queue_calls q (store_calls w)
       + raised_for q ts (fst (register_seq ops m ts w))
       + (if q \<notin> queues (managers w m)
             \<and> returned_for q ts (fst (register_seq ops m ts w)) then 1 else 0)"
proof (induction ts arbitrary: w)
  case Nil
  then show ?case by (simp add: raised_for_def returned_for_def)
next
  case (Cons t ts)
  obtain r w1 where r: "register ops m t w = (r, w1)"
    by (cases "register ops m t w")
  obtain rs w2 where rs: "register_seq ops m ts w1 = (rs, w2)"
    by (cases "register_seq ops m ts w1")
  from r rs have e: "register_seq ops m (t # ts) w = (r # rs, w2)" by simp
  from Cons.IH[of w1] rs have ih:
    "queue_calls q (store_calls w2) = queue_calls q (store_calls w1)
       + raised_for q ts rs
       + (if q \<notin> queues (managers w1 m) \<and> returned_for q ts rs then 1 else 0)"
    by simp
  from register_queues[of ops m t w] r have
    q1: "queues (managers w1 m)
           = (if isl r then queues (managers w m)
              else insert (queue t) (queues (managers w m)))"
    by simp
  from register_store_calls[of ops m t w] r have
    c1: "queue_calls q (store_calls w1) = queue_calls q (store_calls w)
           + (if queue t = q \<and> q \<notin> queues (managers w m) then 1 else 0)"
    by (auto simp: queue_calls_append queue_calls_def)
  from register_known_returns[of t w m ops] r have
    kr: "queue t \<in> queues (managers w m) \<Longrightarrow> \<not> isl r"
    by simp
  have hd_raised: "raised_for q (t # ts) (r # rs)
                     = (if queue t = q \<and> isl r then 1 else 0) + raised_for q ts rs"
    by (simp add: raised_for_def)
  have hd_returned: "returned_for q (t # ts) (r # rs)
                     = ((queue t = q \<and> \<not> isl r) \<or> returned_for q ts rs)"
    by (simp add: returned_for_def)
  show ?case
  proof (cases "queue t = q")
    case False
    with ih q1 c1 e hd_raised hd_returned show ?thesis by auto
  next
    case True
    show ?thesis
    proof (cases "q \<in> queues (managers w m)")
      case known: True
      with True kr have "\<not> isl r" by simp
      with True known ih q1 c1 e hd_raised hd_returned show ?thesis by auto
    next
      case unknown: False
      show ?thesis
      proof (cases "isl r")
        case True
        with \<open>queue t = q\<close> unknown ih q1 c1 e hd_raised hd_returned show ?thesis by auto
      next
        case False
        with \<open>queue t = q\<close> unknown ih q1 c1 e hd_raised hd_returned show ?thesis by auto
      qed
    qed
  qed
qed

lemma none_raised_for:
  assumes "length rs = length ts"
      and "\<forall>(t, r) \<in> set (zip ts rs). queue t = q \<longrightarrow> r = Inr ()"
  shows "raised_for q ts rs = 0 \<and> returned_for q ts rs = (q \<in> queue ` set ts)"
  using assms
proof (induction ts rs rule: list_induct2')
  case 1
  then show ?case by (simp add: raised_for_def returned_for_def)
next
  case (4 t ts r rs)
  then have "raised_for q ts rs = 0 \<and> returned_for q ts rs = (q \<in> queue ` set ts)"
    by simp
  moreover from 4 have "queue t = q \<longrightarrow> r = Inr ()" by simp
  ultimately show ?case
    by (auto simp: raised_for_def returned_for_def)
qed simp_all

lemma example_names:
  "name example_task = ''task_func''" "queue example_task = ''queue''"
  "name other_task = ''other''" "queue other_task = ''queue''"
  "name qfail_task = ''failing''" "queue qfail_task = ''qfail''"
  by (simp_all add: example_task_def other_task_def qfail_task_def Task_init_def)

lemma flaky_run:
  "fst (register_seq flaky_store 0 [example_task, other_task] (example_world 0))
     = [Inl (Raised ''StoreError''), Inr ()]
   \<and> store_calls (snd (register_seq flaky_store 0 [example_task, other_task] (example_world 0)))
     = [(0, RegisterQueue ''queue''), (0, RegisterQueue ''queue'')]"
  by (simp add: register_def Let_def example_names flaky_store_def example_world_def
      TaskManager_init_def)

text \<open>
  C5, as the claim states it, fails when a \<open>register_queue\<close> call raises: a new manager
  on a store whose first \<open>register_queue\<close> call raises and whose second returns, and two
  tasks on the queue \<open>queue\<close> registered one after the other. The first \<open>register\<close> raises
  and leaves the queue unknown, so the second calls the store again: two calls for one
  queue name.
\<close>

theorem register_queue_twice_after_failure:
  "queues (managers (example_world (0::nat)) 0) = {}
   \<and> fst (register_seq flaky_store 0 [example_task, other_task] (example_world 0))
       = [Inl (Raised ''StoreError''), Inr ()]
   \<and> queue_calls ''queue''
        (store_calls (snd (register_seq flaky_store 0 [example_task, other_task]
                             (example_world 0)))) = 2"
  using flaky_run by (simp add: queue_calls_def example_world_def TaskManager_init_def)

text \<open>
  C5, amended. A \<open>register\<close> call for a task whose queue the manager knows makes no store
  call, and one for a task whose queue it does not know makes exactly one, the
  \<open>register_queue\<close> call for that queue. Over any sequence of \<open>register\<close> calls on a
  manager, the number of \<open>register_queue\<close> calls for a queue name \<open>q\<close> is the number of
  registrations of a task on \<open>q\<close> that raised, plus one if the manager did not know \<open>q\<close>
  and a registration of a task on \<open>q\<close> returned. So whenever no registration of a task on
  \<open>q\<close> raises, whatever happens to the registrations on other queues, \<open>register_queue\<close>
  is called for \<open>q\<close> exactly once if some registered task names \<open>q\<close> and the manager did
  not know it before, and not at all otherwise.
\<close>

theorem register_queue_once:
  "(queue t \<in> queues (managers w m)
      \<longrightarrow> store_calls (snd (register ops m t w)) = store_calls w)
   \<and> (queue t \<notin> queues (managers w m)
      \<longrightarrow> store_calls (snd (register ops m t w))
            = store_calls w @ [(job_store (managers w m), RegisterQueue (queue t))])
   \<and> queue_calls q (store_calls (snd (register_seq ops m ts w)))
       = queue_calls q (store_calls w)
         + raised_for q ts (fst (register_seq ops m ts w))
         + (if q \<notin> queues (managers w m)
               \<and> returned_for q ts (fst (register_seq ops m ts w)) then 1 else 0)
   \<and> ((\<forall>(t', r) \<in> set (zip ts (fst (register_seq ops m ts w))). queue t' = q \<longrightarrow> r = Inr ())
      \<longrightarrow> queue_calls q (store_calls (snd (register_seq ops m ts w)))
            = queue_calls q (store_calls w)
              + (if q \<in> queue ` set ts \<and> q \<notin> queues (managers w m) then 1 else 0))"
proof (intro conjI impI)
  assume "queue t \<in> queues (managers w m)"
  then show "store_calls (snd (register ops m t w)) = store_calls w"
    by (simp add: register_store_calls)
next
  assume "queue t \<notin> queues (managers w m)"
  then show "store_calls (snd (register ops m t w))
            = store_calls w @ [(job_store (managers w m), RegisterQueue (queue t))]"
    by (simp add: register_store_calls)
next
  show "queue_calls q (store_calls (snd (register_seq ops m ts w)))
       = queue_calls q (store_calls w)
         + raised_for q ts (fst (register_seq ops m ts w))
         + (if q \<notin> queues (managers w m)
               \<and> returned_for q ts (fst (register_seq ops m ts w)) then 1 else 0)"
    by (rule register_seq_count)
next
  assume a: "\<forall>(t', r) \<in> set (zip ts (fst (register_seq ops m ts w))).
               queue t' = q \<longrightarrow> r = Inr ()"
  from none_raised_for[OF length_register_seq a]
  have "raised_for q ts (fst (register_seq ops m ts w)) = 0"
    and "returned_for q ts (fst (register_seq ops m ts w)) = (q \<in> queue ` set ts)"
    by simp_all
  with register_seq_count[of q ops m ts w]
  show "queue_calls q (store_calls (snd (register_seq ops m ts w)))
            = queue_calls q (store_calls w)
              + (if q \<in> queue ` set ts \<and> q \<notin> queues (managers w m) then 1 else 0)"
    by auto
qed

lemma picky_run:
  "fst (register_seq picky_store 0 [qfail_task, example_task, other_task] (example_world 0))
     = [Inl (Raised ''StoreError''), Inr (), Inr ()]
   \<and> store_calls (snd (register_seq picky_store 0 [qfail_task, example_task, other_task]
                         (example_world 0)))
     = [(0, RegisterQueue ''qfail''), (0, RegisterQueue ''queue'')]"
  by (simp add: register_def Let_def example_names picky_store_def example_world_def
      TaskManager_init_def)

text \<open>
  On the store that refuses the queue \<open>qfail\<close>: a task on \<open>qfail\<close>, whose registration
  raises, then two tasks on \<open>queue\<close>. One call is made for \<open>queue\<close>, by the first of its
  two registrations, and one for \<open>qfail\<close>.
\<close>

theorem register_queue_once_witness:
  "fst (register_seq picky_store 0 [qfail_task, example_task, other_task] (example_world 0))
     = [Inl (Raised ''StoreError''), Inr (), Inr ()]
   \<and> queue_calls ''queue''
        (store_calls (snd (register_seq picky_store 0 [qfail_task, example_task, other_task]
                             (example_world 0)))) = 1
   \<and> queue_calls ''qfail''
        (store_calls (snd (register_seq picky_store 0 [qfail_task, example_task, other_task]
                             (example_world 0)))) = 1
   \<and> store_calls (snd (register picky_store 0 example_task (example_world 0)))
       = [(0, RegisterQueue ''queue'')]
   \<and> store_calls (snd (register picky_store 0 other_task
        (snd (register picky_store 0 example_task (example_world 0)))))
       = [(0, RegisterQueue ''queue'')]"
proof -
  let ?w = "example_world (0::nat)"
  let ?ts = "[qfail_task, example_task, other_task]"
  let ?rs = "[Inl (Raised ''StoreError''), Inr (), Inr ()] :: (string error + unit) list"
  let ?w1 = "snd (register picky_store 0 example_task ?w)"
  note th = register_queue_once[where ops = picky_store and m = 0]
  have rs: "fst (register_seq picky_store 0 ?ts ?w) = ?rs"
    using picky_run by simp
  have ok: "\<forall>(t', r) \<in> set (zip ?ts (fst (register_seq picky_store 0 ?ts ?w))).
              queue t' = ''queue'' \<longrightarrow> r = Inr ()"
    unfolding rs by (simp add: example_names)
  have q0: "queue example_task \<notin> queues (managers ?w 0)"
    by (simp add: example_world_def TaskManager_init_def)
  have s0: "store_calls ?w = []" "job_store (managers ?w 0) = 0"
    by (simp_all add: example_world_def TaskManager_init_def)
  have in_ts: "''queue'' \<in> queue ` set ?ts" "''queue'' \<notin> queues (managers ?w 0)"
    "''qfail'' \<notin> queues (managers ?w 0)"
    by (simp_all add: example_names example_world_def TaskManager_init_def)
  have c0: "queue_calls q (store_calls ?w) = 0" for q
    by (simp add: queue_calls_def s0)
  have a: "store_calls ?w1 = [(0, RegisterQueue ''queue'')]"
    using th[where t = example_task and w = ?w and ts = "[]", THEN conjunct2, THEN conjunct1]
      q0 s0
    by (simp add: example_names)
  have q1: "queue other_task \<in> queues (managers ?w1 0)"
    by (simp add: register_def Let_def example_names picky_store_def example_world_def
        TaskManager_init_def)
  have b: "store_calls (snd (register picky_store 0 other_task ?w1))
             = [(0, RegisterQueue ''queue'')]"
    using th[where t = other_task and w = ?w1 and ts = "[]", THEN conjunct1] q1 a
    by simp
  note seq_queue = th[where ts = ?ts and w = ?w and t = example_task and q = "''queue''",
      THEN conjunct2, THEN conjunct2]
  note seq_qfail = th[where ts = ?ts and w = ?w and t = example_task and q = "''qfail''",
      THEN conjunct2, THEN conjunct2]
  have c: "queue_calls ''queue'' (store_calls (snd (register_seq picky_store 0 ?ts ?w))) = 1"
    using mp[OF seq_queue[THEN conjunct2] ok] in_ts c0
    by (simp del: register_seq.simps)
  have rf: "raised_for ''qfail'' ?ts ?rs = 1" "\<not> returned_for ''qfail'' ?ts ?rs"
    by (simp_all add: raised_for_def returned_for_def example_names)
  have d: "queue_calls ''qfail'' (store_calls (snd (register_seq picky_store 0 ?ts ?w))) = 1"
    using seq_qfail[THEN conjunct1] rf c0 in_ts
    unfolding rs by (simp del: register_seq.simps)
  from rs a b c d show ?thesis by (intro conjI)
qed

end
